theory Spec2Isabelle
  imports Complex_Main "HOL-Library.Multiset"
begin

section \<open>Python values used by routes/ai.py\<close>

subsection \<open>Text\<close>

text \<open>
  A Python \<open>str\<close> is modelled as a \<open>string\<close> holding its UTF-8 bytes, so the emoji and the
  en dash of the source's literals are written as their bytes. \<open>str(n)\<close> and the format
  specifications \<open>{n}\<close>, \<open>{n:02d}\<close> and \<open>{x:.1f}\<close> are the functions below. Numbers that are
  \<open>float\<close> in the source are exact rationals here.
\<close>

definition digit_char :: "nat \<Rightarrow> char" where
  "digit_char d = ''0123456789'' ! d"

fun str_nat :: "nat \<Rightarrow> string" where
  "str_nat n = (if n < 10 then [digit_char n] else str_nat (n div 10) @ [digit_char (n mod 10)])"

declare str_nat.simps [simp del]

definition str_int :: "int \<Rightarrow> string" where
  \<comment> \<open>\<open>f"{i}"\<close> for an \<open>int\<close>\<close>
  "str_int i = (if i < 0 then CHR ''-'' # str_nat (nat (- i)) else str_nat (nat i))"

definition fmt_02d :: "int \<Rightarrow> string" where
  \<comment> \<open>\<open>f"{i:02d}"\<close>: zero-padded to width two\<close>
  "fmt_02d i = (if 0 \<le> i \<and> i < 10 then CHR ''0'' # str_int i else str_int i)"

definition py_int :: "rat \<Rightarrow> int" where
  \<comment> \<open>\<open>int(x)\<close> of a float: truncation towards zero\<close>
  "py_int x = (if 0 \<le> x then \<lfloor>x\<rfloor> else \<lceil>x\<rceil>)"

definition round_half_even :: "rat \<Rightarrow> int" where
  "round_half_even x =
     (let f = \<lfloor>x\<rfloor>; r = x - of_int f
      in if r < 1 / 2 then f else if 1 / 2 < r then f + 1 else if even f then f else f + 1)"

definition py_round1 :: "rat \<Rightarrow> rat" where
  \<comment> \<open>\<open>round(x, 1)\<close>\<close>
  "py_round1 x = of_int (round_half_even (x * 10)) / 10"

definition fmt_1f :: "rat \<Rightarrow> string" where
  \<comment> \<open>\<open>f"{x:.1f}"\<close>\<close>
  "fmt_1f x =
     (let t = round_half_even (\<bar>x\<bar> * 10)
      in (if x < 0 then ''-'' else '''') @ str_int (t div 10) @ ''.'' @ str_int (t mod 10))"

fun contains :: "string \<Rightarrow> string \<Rightarrow> bool" where
  \<comment> \<open>\<open>kw in text\<close>: \<open>kw\<close> is a substring of \<open>text\<close>\<close>
  "contains kw [] = (kw = [])"
| "contains kw (c # cs) = (take (length kw) (c # cs) = kw \<or> contains kw cs)"

subsection \<open>datetime\<close>

text \<open>
  The wall-clock fields of a \<open>datetime\<close>, and a \<open>datetime\<close> itself: naive (no \<open>tzinfo\<close>), or
  aware with its UTC offset in microseconds. \<open>datetime.now()\<close> returns a naive value.
  Subtraction is the library's: two naive values or two aware values give a \<open>timedelta\<close>
  (here its length in microseconds); a naive and an aware one raise \<open>TypeError\<close>.
\<close>

record wall =
  year :: int
  month :: int
  day :: int
  hour :: int
  minute :: int
  second :: int
  microsecond :: int

datatype datetime = Naive wall | Aware wall int

datatype py_error = ValueError | TypeError

definition is_leap :: "int \<Rightarrow> bool" where
  "is_leap y = (y mod 4 = 0 \<and> (y mod 100 \<noteq> 0 \<or> y mod 400 = 0))"

definition days_before_year :: "int \<Rightarrow> int" where
  "days_before_year y = (let p = y - 1 in p * 365 + p div 4 - p div 100 + p div 400)"

definition days_in_month :: "int \<Rightarrow> int \<Rightarrow> int" where
  "days_in_month y m =
     (if m = 2 \<and> is_leap y then 29
      else [31, 28, 31, 30, 31, 30, 31, 31, 30, 31, 30, 31] ! nat (m - 1))"

definition days_before_month :: "int \<Rightarrow> int \<Rightarrow> int" where
  "days_before_month y m = sum_list (map (days_in_month y) [1 ..< nat m])"

definition toordinal :: "wall \<Rightarrow> int" where
  "toordinal w = days_before_year (year w) + days_before_month (year w) (month w) + day w"

definition wall_micros :: "wall \<Rightarrow> int" where
  "wall_micros w =
     ((toordinal w * 86400 + hour w * 3600 + minute w * 60 + second w) * 1000000
      + microsecond w)"

fun datetime_sub :: "datetime \<Rightarrow> datetime \<Rightarrow> py_error + int" where
  "datetime_sub (Naive a) (Naive b) = Inr (wall_micros a - wall_micros b)"
| "datetime_sub (Aware a oa) (Aware b ob) = Inr (wall_micros a - wall_micros b + ob - oa)"
| "datetime_sub (Naive a) (Aware b ob) = Inl TypeError"
| "datetime_sub (Aware a oa) (Naive b) = Inl TypeError"

definition total_seconds :: "int \<Rightarrow> rat" where
  "total_seconds td = of_int td / 1000000"

fun wall_of :: "datetime \<Rightarrow> wall" where
  "wall_of (Naive w) = w"
| "wall_of (Aware w off) = w"

definition month_abbr :: "int \<Rightarrow> string" where
  "month_abbr m =
     [''Jan'', ''Feb'', ''Mar'', ''Apr'', ''May'', ''Jun'',
      ''Jul'', ''Aug'', ''Sep'', ''Oct'', ''Nov'', ''Dec''] ! nat (m - 1)"

definition strftime_b_d :: "datetime \<Rightarrow> string" where
  \<comment> \<open>\<open>d.strftime("%b %d")\<close>\<close>
  "strftime_b_d d = month_abbr (month (wall_of d)) @ '' '' @ fmt_02d (day (wall_of d))"

section \<open>schemas/task.py\<close>

text \<open>
  The request and response models. Several of them share field names; the records are
  declared so that an unqualified name is a field of \<open>Task\<close> where \<open>Task\<close> has it, and the
  other records' fields are written with their record's name. \<open>generatedAt\<close>, which the
  response models fill in by a default factory and no function of routes/ai.py sets, is
  left out.
\<close>

record AIRecommendation =
  taskId :: string
  taskTitle :: string
  rank :: int
  reason :: string
  suggestedTime :: string

record AIPriorityResponse =
  recommendations :: "AIRecommendation list"
  insight :: string

record AITimeBlock =
  startTime :: string
  endTime :: string
  task :: string
  taskId :: string
  label :: string
  emoji :: string
  tip :: string

record AIDailyPlanResponse =
  timeBlocks :: "AITimeBlock list"
  totalFocusHours :: rat
  productivityTips :: "string list"

record AISuggestRequest =
  title :: string
  description :: "string option"

record AISuggestResponse =
  priority :: string
  estimatedHours :: rat
  tip :: string
  confidence :: rat

record Task =
  id' :: string
  title :: string
  description :: "string option"
  deadline :: "string option"
  priority :: string
  status :: string
  category :: "string option"
  estimatedHours :: "rat option"
  createdAt :: string
  updatedAt :: "string option"

record AIPriorityRequest =
  tasks :: "Task list"

section \<open>routes/ai.py: utilities\<close>

text \<open>
  Two things the functions read from outside are parameters: \<open>fromisoformat\<close>, the library's
  parser (\<open>None\<close> where it raises \<open>ValueError\<close>), and the reading \<open>now\<close> that the one call of
  \<open>datetime.now()\<close> in the function returns.
\<close>

definition PRIORITY_SCORE :: "string \<rightharpoonup> int" where
  "PRIORITY_SCORE =
     map_of [(''critical'', 100), (''high'', 75), (''medium'', 50), (''low'', 25)]"

definition dict_get :: "('k \<rightharpoonup> 'v) \<Rightarrow> 'k \<Rightarrow> 'v \<Rightarrow> 'v" where
  "dict_get m k d = (case m k of None \<Rightarrow> d | Some v \<Rightarrow> v)"

definition urgency_score :: "(string \<Rightarrow> datetime option) \<Rightarrow> wall \<Rightarrow> Task \<Rightarrow> int" where
  "urgency_score fromisoformat now t =
     (case deadline t of
        None \<Rightarrow> dict_get PRIORITY_SCORE (priority t) 0
      | Some s \<Rightarrow>
          if s = [] then dict_get PRIORITY_SCORE (priority t) 0
          else
            (case fromisoformat s of
               None \<Rightarrow> dict_get PRIORITY_SCORE (priority t) 0
             | Some d \<Rightarrow>
                 (case datetime_sub d (Naive now) of
                    Inl e \<Rightarrow> dict_get PRIORITY_SCORE (priority t) 0
                  | Inr td \<Rightarrow>
                      (let diff_hours = total_seconds td / 3600;
                           time_score =
                             (if diff_hours < 0 then 200
                              else if diff_hours < 24 then 150
                              else if diff_hours < 72 then 100
                              else if diff_hours < 168 then 50
                              else 10)
                       in dict_get PRIORITY_SCORE (priority t) 0 + time_score))))"

definition format_deadline :: "(string \<Rightarrow> datetime option) \<Rightarrow> wall \<Rightarrow> Task \<Rightarrow> string" where
  "format_deadline fromisoformat now t =
     (case deadline t of
        None \<Rightarrow> ''no deadline''
      | Some s \<Rightarrow>
          if s = [] then ''no deadline''
          else
            (case fromisoformat s of
               None \<Rightarrow> s
             | Some d \<Rightarrow>
                 (case datetime_sub d (Naive now) of
                    Inl e \<Rightarrow> s
                  | Inr diff \<Rightarrow>
                      (let hours = py_int (total_seconds diff / 3600)
                       in if hours < 0 then ''overdue by '' @ str_int \<bar>hours div 24\<bar> @ ''d''
                          else if hours < 24 then str_int hours @ ''h left''
                          else
                            (let days = hours div 24
                             in if days \<le> 7 then str_int days @ ''d left''
                                else strftime_b_d d)))))"

section \<open>routes/ai.py: the rule-based functions\<close>

text \<open>
  A request calls the clock once in every call of \<open>urgency_score\<close> and of
  \<open>format_deadline\<close> that gets as far as \<open>datetime.now()\<close>. The functions that make several
  such calls take the readings as \<open>clk\<close>: the call numbered \<open>k\<close> within the request sees
  \<open>clk k\<close>. No order or spacing of the readings is assumed.

  \<open>sorted(xs, key=key, reverse=True)\<close> computes the key of every element once, in list order,
  and sorts by the keys, largest first, keeping elements of equal key in their order.
\<close>

definition hours_or_2 :: "Task \<Rightarrow> rat" where
  \<comment> \<open>\<open>t.estimatedHours or 2\<close>\<close>
  "hours_or_2 t = (case estimatedHours t of None \<Rightarrow> 2 | Some h \<Rightarrow> if h = 0 then 2 else h)"

definition sorted_reverse :: "(nat \<Rightarrow> 'a \<Rightarrow> int) \<Rightarrow> 'a list \<Rightarrow> 'a list" where
  "sorted_reverse key xs =
     map snd (sort_key (\<lambda>p. - fst p) (map (\<lambda>(k, x). (key k x, x)) (enumerate 0 xs)))"

definition active_tasks :: "Task list \<Rightarrow> Task list" where
  \<comment> \<open>\<open>[t for t in tasks if t.status != "completed"]\<close>\<close>
  "active_tasks ts = filter (\<lambda>t. status t \<noteq> ''completed'') ts"

definition sorted_tasks ::
  "(string \<Rightarrow> datetime option) \<Rightarrow> (nat \<Rightarrow> wall) \<Rightarrow> Task list \<Rightarrow> Task list" where
  \<comment> \<open>\<open>sorted(active, key=urgency_score, reverse=True)\<close>\<close>
  "sorted_tasks fromisoformat clk ts =
     sorted_reverse (\<lambda>k. urgency_score fromisoformat (clk k)) (active_tasks ts)"

definition reasons :: "(string \<Rightarrow> string \<Rightarrow> string) list" where
  \<comment> \<open>the three templates, as functions of the values \<open>format\<close> puts in for \<open>p\<close> and \<open>d\<close>\<close>
  "reasons =
     [\<lambda>p d. [CHR 0xF0, CHR 0x9F, CHR 0x94, CHR 0xA5] @ '' Highest urgency: '' @ p
         @ '' priority with deadline '' @ d @ ''. Clear your schedule and start now.'',
      \<lambda>p d. [CHR 0xE2, CHR 0x9A, CHR 0xA1]
         @ '' Second priority: Significant impact on project timeline. Schedule immediately after task #1.'',
      \<lambda>p d. [CHR 0xF0, CHR 0x9F, CHR 0x93, CHR 0x8B]
         @ '' Third priority: Important but manageable. Block time this afternoon.'']"

definition suggestions :: "string list" where
  "suggestions =
     [''9:00 AM '' @ [CHR 0xE2, CHR 0x80, CHR 0x93] @ '' 11:00 AM'',
      ''11:30 AM '' @ [CHR 0xE2, CHR 0x80, CHR 0x93] @ '' 1:00 PM'',
      ''2:00 PM '' @ [CHR 0xE2, CHR 0x80, CHR 0x93] @ '' 4:00 PM'']"

definition rule_based_priorities ::
  "(string \<Rightarrow> datetime option) \<Rightarrow> (nat \<Rightarrow> wall) \<Rightarrow> Task list \<Rightarrow> AIPriorityResponse" where
  "rule_based_priorities fromisoformat clk ts =
     (let active = active_tasks ts;
          recs =
            map (\<lambda>(i, t).
                  \<lparr>AIRecommendation.taskId = id' t,
                   taskTitle = title t,
                   rank = int i + 1,
                   reason = (reasons ! i) (priority t)
                              (format_deadline fromisoformat (clk (length active + i)) t),
                   suggestedTime = suggestions ! i\<rparr>)
              (enumerate 0 (take 3 (sorted_tasks fromisoformat clk ts)));
          critical_count = length (filter (\<lambda>t. priority t = ''critical'') active);
          total_hours = sum_list (map hours_or_2 active)
      in \<lparr>recommendations = recs,
          insight =
            ''You have '' @ str_nat (length active) @ '' active tasks with ''
            @ str_nat critical_count @ '' marked critical. Estimated '' @ fmt_1f total_hours
            @ ''h of focused work. I recommend addressing the top 3 priorities before 4 PM today.''\<rparr>)"

definition block_templates :: "(string \<times> string \<times> string) list" where
  \<comment> \<open>label, emoji, tip\<close>
  "block_templates =
     [(''Deep Work Block'', [CHR 0xF0, CHR 0x9F, CHR 0xA7, CHR 0xA0],
       ''Silence all notifications. Use 90-min focus sprints with 10-min breaks.''),
      (''Collaborative Focus'', [CHR 0xF0, CHR 0x9F, CHR 0xA4, CHR 0x9D],
       ''Schedule any needed syncs at the start. Batch async updates after.''),
      (''Creative Session'', [CHR 0xE2, CHR 0x9C, CHR 0xA8],
       ''Start with a 5-min freewrite. Suspend self-editing until a complete draft exists.''),
      (''Review & Polish'', [CHR 0xF0, CHR 0x9F, CHR 0x94, CHR 0x8D],
       ''Work through a checklist. Document progress for tomorrow's handoff.'')]"

definition py_mod1 :: "rat \<Rightarrow> rat" where
  \<comment> \<open>\<open>x % 1\<close>\<close>
  "py_mod1 x = x - of_int \<lfloor>x\<rfloor>"

definition hh_mm :: "rat \<Rightarrow> string" where
  \<comment> \<open>\<open>f"{h}:{m:02d}"\<close> with \<open>h = int(x)\<close> and \<open>m = int((x % 1) * 60)\<close>\<close>
  "hh_mm x = str_int (py_int x) @ '':'' @ fmt_02d (py_int (py_mod1 x * 60))"

fun time_blocks_loop :: "nat \<Rightarrow> rat \<Rightarrow> Task list \<Rightarrow> AITimeBlock list" where
  \<comment> \<open>the \<open>for i, task in enumerate(active[:4])\<close> loop, from index \<open>i\<close> and clock \<open>current_hour\<close>\<close>
  "time_blocks_loop i current_hour [] = []"
| "time_blocks_loop i current_hour (t # rest) =
     (let dur = hours_or_2 t;
          end_hour = current_hour + dur;
          tpl = block_templates ! (i mod length block_templates)
      in \<lparr>startTime = hh_mm current_hour,
          endTime = hh_mm end_hour,
          task = title t,
          taskId = id' t,
          label = fst tpl,
          emoji = fst (snd tpl),
          AITimeBlock.tip = snd (snd tpl)\<rparr>
         # time_blocks_loop (i + 1)
             (current_hour + of_int \<lceil>dur\<rceil> + (if i = 1 then 1 / 2 else 0)) rest)"

definition productivity_tips :: "string list" where
  "productivity_tips =
     [[CHR 0xF0, CHR 0x9F, CHR 0x8C, CHR 0x85] @ '' Your peak cognitive performance occurs 9''
        @ [CHR 0xE2, CHR 0x80, CHR 0x93] @ ''11 AM. Front-load your most demanding task.'',
      [CHR 0xE2, CHR 0x8F, CHR 0xB0]
        @ '' Apply the 2-minute rule: tasks under 2 minutes get done immediately, not scheduled.'',
      [CHR 0xF0, CHR 0x9F, CHR 0x8E, CHR 0xAF]
        @ '' Limit daily MIT (Most Important Tasks) to exactly 3 for maximum execution clarity.'',
      [CHR 0xF0, CHR 0x9F, CHR 0x94, CHR 0x8B]
        @ '' Insert a 15-min walk at 3 PM to counteract the post-lunch circadian energy dip.'',
      [CHR 0xF0, CHR 0x9F, CHR 0x93, CHR 0xB5]
        @ '' Batch communications (Slack, email) to 3 fixed windows: 10 AM, 1 PM, and 4 PM.'',
      [CHR 0xF0, CHR 0x9F, CHR 0x93, CHR 0x9D]
        @ '' End each day with a 5-min 'shutdown ritual': clear tomorrow's top 3 tasks the night before.'']"

definition rule_based_daily_plan ::
  "(string \<Rightarrow> datetime option) \<Rightarrow> (nat \<Rightarrow> wall) \<Rightarrow> Task list \<Rightarrow> AIDailyPlanResponse" where
  "rule_based_daily_plan fromisoformat clk ts =
     (let active = sorted_tasks fromisoformat clk ts;
          time_blocks = time_blocks_loop 0 9 (take 4 active);
          total_hours = sum_list (map hours_or_2 (take 4 active))
      in \<lparr>timeBlocks = time_blocks,
          totalFocusHours = py_round1 total_hours,
          productivityTips = productivity_tips\<rparr>)"

type_synonym rule = "string list \<times> string \<times> rat \<times> string \<times> rat"

definition rules :: "rule list" where
  \<comment> \<open>keywords, priority, hours, tip, confidence\<close>
  "rules =
     [([''finance'', ''budget'', ''invoice'', ''payroll'', ''audit''], ''critical'', 4,
       ''Gather all data sources before starting. Book 2h uninterrupted blocks.'', 92 / 100),
      ([''security'', ''vulnerability'', ''breach'', ''incident''], ''critical'', 3,
       ''Escalate immediately. Loop in stakeholders before diving into solutions.'', 95 / 100),
      ([''engineer'', ''architecture'', ''code'', ''system'', ''deploy'', ''infra''], ''high'', 3,
       ''Break into vertical slices. Time-box at 90-min intervals.'', 88 / 100),
      ([''deadline'', ''urgent'', ''asap'', ''critical'', ''launch''], ''high'', 5 / 2,
       ''Clarify scope before starting. Identify blockers in the first 15 minutes.'', 90 / 100),
      ([''market'', ''campaign'', ''content'', ''brand'', ''seo''], ''medium'', 5 / 2,
       ''Review competitor analysis first. Batch similar tasks for flow state.'', 85 / 100),
      ([''meeting'', ''sync'', ''review'', ''interview'', ''1:1''], ''medium'', 3 / 2,
       ''Prepare a clear agenda. Time-box strictly with a timer.'', 80 / 100),
      ([''document'', ''readme'', ''wiki'', ''report'', ''analysis''], ''medium'', 2,
       ''Start with an outline before writing. Use headers to structure thinking.'', 82 / 100),
      ([''research'', ''explore'', ''investigate'', ''spike''], ''low'', 3,
       ''Time-box research to avoid rabbit holes. Set a clear output goal.'', 78 / 100)]"

definition rule_matches :: "string \<Rightarrow> rule \<Rightarrow> bool" where
  \<comment> \<open>\<open>any(kw in text for kw in keywords)\<close>\<close>
  "rule_matches text r = list_ex (\<lambda>kw. contains kw text) (fst r)"

definition rule_response :: "rule \<Rightarrow> AISuggestResponse" where
  "rule_response r =
     (case r of (keywords, p, hours, tp, conf) \<Rightarrow>
        \<lparr>AISuggestResponse.priority = p, AISuggestResponse.estimatedHours = hours,
         AISuggestResponse.tip = tp, confidence = conf\<rparr>)"

definition default_suggestion :: AISuggestResponse where
  "default_suggestion =
     \<lparr>AISuggestResponse.priority = ''medium'', AISuggestResponse.estimatedHours = 2,
      AISuggestResponse.tip =
        ''Define a clear 'done' criteria before starting. Schedule a checkpoint at the halfway mark.'',
      confidence = 70 / 100\<rparr>"

fun rules_loop :: "string \<Rightarrow> rule list \<Rightarrow> AISuggestResponse" where
  \<comment> \<open>the \<open>for ... in rules\<close> loop with its \<open>return\<close>, and the \<open>return\<close> after it\<close>
  "rules_loop text [] = default_suggestion"
| "rules_loop text (r # rest) =
     (if rule_matches text r then rule_response r else rules_loop text rest)"

definition rule_based_suggest ::
  "(string \<Rightarrow> string) \<Rightarrow> string \<Rightarrow> string option \<Rightarrow> AISuggestResponse" where
  \<comment> \<open>\<open>lower\<close> is \<open>str.lower\<close>\<close>
  "rule_based_suggest lower ttl descr =
     (let text = lower (ttl @ '' '' @ (case descr of None \<Rightarrow> [] | Some d \<Rightarrow> d))
      in rules_loop text rules)"

section \<open>routes/ai.py: the reasoning backend\<close>

text \<open>
  Everything \<open>openai_priorities\<close> does inside its \<open>try\<close> block is outside this repository:
  the import of the client library, the awaited network call, \<open>json.loads\<close> and the
  validation of the reply by the response models. They are two parameters. \<open>chat\<close> is
  the block up to \<open>response.choices[0].message.content\<close>, given the active tasks the prompt
  lists; \<open>decode\<close> is the rest, from the reply's text to the validated response. Each
  returns \<open>Inl\<close> for an exception that \<open>except Exception\<close> catches. \<open>api_key\<close> is what
  \<open>os.getenv("OPENAI_API_KEY")\<close> returns.
\<close>

datatype backend_failure =
  ImportFailed | NetworkError | TimedOut | MalformedJSON | SchemaMismatch

definition truthy :: "string option \<Rightarrow> bool" where
  \<comment> \<open>the truth value of an \<open>Optional[str]\<close>\<close>
  "truthy v = (case v of None \<Rightarrow> False | Some s \<Rightarrow> s \<noteq> [])"

definition openai_priorities ::
  "string option \<Rightarrow> (Task list \<Rightarrow> backend_failure + string)
   \<Rightarrow> (string \<Rightarrow> backend_failure + AIPriorityResponse)
   \<Rightarrow> (string \<Rightarrow> datetime option) \<Rightarrow> (nat \<Rightarrow> wall) \<Rightarrow> Task list \<Rightarrow> AIPriorityResponse" where
  "openai_priorities api_key chat decode fromisoformat clk ts =
     (if \<not> truthy api_key then rule_based_priorities fromisoformat clk ts
      else
        (case chat (active_tasks ts) of
           Inl e \<Rightarrow> rule_based_priorities fromisoformat clk ts
         | Inr content \<Rightarrow>
             (case decode content of
                Inl e \<Rightarrow> rule_based_priorities fromisoformat clk ts
              | Inr response \<Rightarrow> response)))"

section \<open>routes/ai.py: the route handlers\<close>

datatype HTTPException = HTTPException int string

definition analyze_priorities ::
  "string option \<Rightarrow> (Task list \<Rightarrow> backend_failure + string)
   \<Rightarrow> (string \<Rightarrow> backend_failure + AIPriorityResponse)
   \<Rightarrow> (string \<Rightarrow> datetime option) \<Rightarrow> (nat \<Rightarrow> wall) \<Rightarrow> AIPriorityRequest
   \<Rightarrow> HTTPException + AIPriorityResponse" where
  "analyze_priorities api_key chat decode fromisoformat clk request =
     (if tasks request = [] then Inl (HTTPException 400 ''Task list cannot be empty'')
      else
        (let use_openai = truthy api_key
         in if use_openai
            then Inr (openai_priorities api_key chat decode fromisoformat clk (tasks request))
            else Inr (rule_based_priorities fromisoformat clk (tasks request))))"

definition generate_daily_plan ::
  "(string \<Rightarrow> datetime option) \<Rightarrow> (nat \<Rightarrow> wall) \<Rightarrow> AIPriorityRequest
   \<Rightarrow> HTTPException + AIDailyPlanResponse" where
  "generate_daily_plan fromisoformat clk request =
     (if tasks request = [] then Inl (HTTPException 400 ''Task list cannot be empty'')
      else Inr (rule_based_daily_plan fromisoformat clk (tasks request)))"

definition suggest_task_config ::
  "(string \<Rightarrow> string) \<Rightarrow> (string \<Rightarrow> string) \<Rightarrow> AISuggestRequest
   \<Rightarrow> HTTPException + AISuggestResponse" where
  \<comment> \<open>\<open>strip\<close> is \<open>str.strip\<close>, \<open>lower\<close> is \<open>str.lower\<close>\<close>
  "suggest_task_config strip lower request =
     (if strip (AISuggestRequest.title request) = []
      then Inl (HTTPException 400 ''Task title is required'')
      else Inr (rule_based_suggest lower (AISuggestRequest.title request)
                  (Some (case AISuggestRequest.description request of
                           None \<Rightarrow> [] | Some d \<Rightarrow> d))))"

section \<open>The specification's notions\<close>

text \<open>
  These definitions follow the specification's words, not the code; the theorems below
  compare the code with them.
\<close>

definition base_score :: "string \<Rightarrow> int" where
  \<comment> \<open>critical=100, high=75, medium=50, low=25, any other priority 0\<close>
  "base_score p =
     (if p = ''critical'' then 100 else if p = ''high'' then 75
      else if p = ''medium'' then 50 else if p = ''low'' then 25 else 0)"

definition diff_hours :: "wall \<Rightarrow> wall \<Rightarrow> rat" where
  \<comment> \<open>(deadline - now) / 3600, the difference taken in seconds\<close>
  "diff_hours d now = (of_int (wall_micros d - wall_micros now) / 1000000) / 3600"

definition time_bonus :: "rat \<Rightarrow> int" where
  "time_bonus h =
     (if h < 0 then 200
      else if 0 \<le> h \<and> h < 24 then 150
      else if 24 \<le> h \<and> h < 72 then 100
      else if 72 \<le> h \<and> h < 168 then 50
      else 10)"

definition scored ::
  "(string \<Rightarrow> datetime option) \<Rightarrow> (nat \<Rightarrow> wall) \<Rightarrow> Task list \<Rightarrow> (int \<times> Task) list" where
  \<comment> \<open>the active items in input order, each with the urgency score computed for it\<close>
  "scored fromisoformat clk ts =
     map (\<lambda>(k, t). (urgency_score fromisoformat (clk k) t, t)) (enumerate 0 (active_tasks ts))"

definition clock_at :: "Task list \<Rightarrow> nat \<Rightarrow> rat" where
  \<comment> \<open>the running clock before the block of index \<open>i\<close>: 09:00, plus the rounded-up
      durations of the earlier blocks, plus the lunch gap once the block of index 1 is past\<close>
  "clock_at sel i =
     9 + of_int (sum_list (map (\<lambda>t. \<lceil>hours_or_2 t\<rceil>) (take i sel)))
       + (if 2 \<le> i then 1 / 2 else 0)"

section \<open>Inputs for the examples\<close>

text \<open>
  \<open>fromisoformat_seconds\<close> is the library's parser on one layout it accepts,
  \<open>YYYY-MM-DDTHH:MM:SS\<close> with an optional \<open>+HH:MM\<close> or \<open>-HH:MM\<close>, and \<open>None\<close> elsewhere;
  \<open>ascii_lower\<close> and \<open>ascii_strip\<close> are \<open>str.lower\<close> and \<open>str.strip\<close> on ASCII text. The
  examples run the functions with them; the theorems hold for every parser, lowering
  and stripping function.
\<close>

definition digit_of :: "char \<Rightarrow> int option" where
  "digit_of c =
     (let n = (of_char c :: nat) in if 48 \<le> n \<and> n \<le> 57 then Some (int n - 48) else None)"

fun digits_acc :: "int \<Rightarrow> string \<Rightarrow> int option" where
  "digits_acc a [] = Some a"
| "digits_acc a (c # cs) =
     (case digit_of c of None \<Rightarrow> None | Some d \<Rightarrow> digits_acc (a * 10 + d) cs)"

definition field :: "string \<Rightarrow> nat \<Rightarrow> nat \<Rightarrow> int option" where
  "field s i n = digits_acc 0 (take n (drop i s))"

definition parse_wall :: "string \<Rightarrow> wall option" where
  "parse_wall s =
     (if s ! 4 = CHR ''-'' \<and> s ! 7 = CHR ''-'' \<and> s ! 10 = CHR ''T''
         \<and> s ! 13 = CHR '':'' \<and> s ! 16 = CHR '':''
      then
        (case (field s 0 4, field s 5 2, field s 8 2, field s 11 2, field s 14 2, field s 17 2) of
           (Some y, Some mo, Some d, Some h, Some mi, Some se) \<Rightarrow>
             if 1 \<le> y \<and> 1 \<le> mo \<and> mo \<le> 12 \<and> 1 \<le> d \<and> d \<le> days_in_month y mo
                \<and> h \<le> 23 \<and> mi \<le> 59 \<and> se \<le> 59
             then Some \<lparr>year = y, month = mo, day = d, hour = h, minute = mi, second = se,
                        microsecond = 0\<rparr>
             else None
         | _ \<Rightarrow> None)
      else None)"

definition parse_offset :: "string \<Rightarrow> int option" where
  "parse_offset s =
     (if (s ! 0 = CHR ''+'' \<or> s ! 0 = CHR ''-'') \<and> s ! 3 = CHR '':''
      then
        (case (field s 1 2, field s 4 2) of
           (Some h, Some mi) \<Rightarrow>
             if h \<le> 23 \<and> mi \<le> 59
             then Some ((if s ! 0 = CHR ''-'' then - 1 else 1) * (h * 3600 + mi * 60) * 1000000)
             else None
         | _ \<Rightarrow> None)
      else None)"

definition fromisoformat_seconds :: "string \<Rightarrow> datetime option" where
  "fromisoformat_seconds s =
     (if length s = 19 then map_option Naive (parse_wall s)
      else if length s = 25 then
        (case (parse_wall (take 19 s), parse_offset (drop 19 s)) of
           (Some w, Some off) \<Rightarrow> Some (Aware w off)
         | _ \<Rightarrow> None)
      else None)"

definition ascii_lower :: "string \<Rightarrow> string" where
  "ascii_lower s =
     map (\<lambda>c. let n = (of_char c :: nat) in if 65 \<le> n \<and> n \<le> 90 then char_of (n + 32) else c) s"

definition ascii_space :: "char \<Rightarrow> bool" where
  "ascii_space c = ((of_char c :: nat) \<in> {9, 10, 11, 12, 13, 32})"

definition ascii_strip :: "string \<Rightarrow> string" where
  "ascii_strip s = rev (dropWhile ascii_space (rev (dropWhile ascii_space s)))"

definition now0 :: wall where
  \<comment> \<open>2026-11-05 09:00:00\<close>
  "now0 = \<lparr>year = 2026, month = 11, day = 5, hour = 9, minute = 0, second = 0, microsecond = 0\<rparr>"

definition mk_task ::
  "string \<Rightarrow> string \<Rightarrow> string \<Rightarrow> string option \<Rightarrow> rat option \<Rightarrow> Task" where
  \<comment> \<open>a task with the given id, priority, status, deadline and estimate\<close>
  "mk_task i p st dl h =
     \<lparr>id' = i, title = ''Task '' @ i, description = None, deadline = dl, priority = p,
      status = st, category = None, estimatedHours = h,
      createdAt = ''2026-11-01T08:00:00'', updatedAt = None\<rparr>"

section \<open>Urgency score\<close>

lemma priority_score_get: "dict_get PRIORITY_SCORE p 0 = base_score p"
  by (simp add: dict_get_def PRIORITY_SCORE_def base_score_def)

text \<open>
  C1, as amended. The urgency score is the base score of the priority (critical 100, high
  75, medium 50, low 25, anything else 0), plus the time bonus of
  \<open>diffHours = (deadline - now) / 3600\<close> (200 below 0, 150 in [0, 24), 100 in [24, 72), 50 in
  [72, 168), 10 from 168 on) when the deadline is present, non-empty, parses, and parses
  to a timestamp without a UTC offset. When the deadline is absent or empty, does not
  parse, or parses to a timestamp with a UTC offset (which cannot be subtracted from
  the offset-free clock reading), the score is the base score alone. The function is
  total: no case raises.
\<close>

theorem urgency_score_cases:
  "urgency_score fromisoformat now t =
     (case deadline t of
        None \<Rightarrow> base_score (priority t)
      | Some s \<Rightarrow>
          if s = [] then base_score (priority t)
          else
            (case fromisoformat s of
               None \<Rightarrow> base_score (priority t)
             | Some (Naive d) \<Rightarrow> base_score (priority t) + time_bonus (diff_hours d now)
             | Some (Aware d off) \<Rightarrow> base_score (priority t)))"
  by (simp add: urgency_score_def priority_score_get time_bonus_def total_seconds_def
      diff_hours_def Let_def split: option.split datetime.split)

text \<open>
  At 2026-11-05 09:00: a critical item due in 12 hours scores 100 + 150, a low item one
  hour overdue 25 + 200, a critical item with no deadline 100, an item with an unknown
  priority and an unparseable deadline 0, and a high item whose deadline carries an
  offset 75.
\<close>

theorem urgency_score_cases_witness:
  "urgency_score fromisoformat_seconds now0
     (mk_task ''a'' ''critical'' ''pending'' (Some ''2026-11-05T21:00:00'') None) = 250
   \<and> urgency_score fromisoformat_seconds now0
     (mk_task ''b'' ''low'' ''pending'' (Some ''2026-11-05T08:00:00'') None) = 225
   \<and> urgency_score fromisoformat_seconds now0
     (mk_task ''c'' ''critical'' ''pending'' None None) = 100
   \<and> urgency_score fromisoformat_seconds now0
     (mk_task ''d'' ''urgent'' ''pending'' (Some ''next tuesday'') None) = 0
   \<and> urgency_score fromisoformat_seconds now0
     (mk_task ''e'' ''high'' ''pending'' (Some ''2026-11-05T21:00:00+00:00'') None) = 75"
  unfolding urgency_score_cases by code_simp

text \<open>
  C1 as stated fails. The deadline \<open>2026-11-05T21:00:00+00:00\<close> parses as an ISO-8601
  timestamp, yet the score of the high-priority item that carries it is 75, the base
  score alone, which is the base score plus a bonus for no value of \<open>diffHours\<close>.
\<close>

theorem urgency_score_offset_counterexample:
  "fromisoformat_seconds ''2026-11-05T21:00:00+00:00''
     = Some (Aware \<lparr>year = 2026, month = 11, day = 5, hour = 21, minute = 0, second = 0,
                     microsecond = 0\<rparr> 0)
   \<and> urgency_score fromisoformat_seconds now0
         (mk_task ''e'' ''high'' ''pending'' (Some ''2026-11-05T21:00:00+00:00'') None) = 75
   \<and> (\<forall>h. base_score ''high'' + time_bonus h \<noteq> 75)"
proof -
  have parsed: "fromisoformat_seconds ''2026-11-05T21:00:00+00:00''
     = Some (Aware \<lparr>year = 2026, month = 11, day = 5, hour = 21, minute = 0, second = 0,
                     microsecond = 0\<rparr> 0)"
    by code_simp
  have score: "urgency_score fromisoformat_seconds now0
         (mk_task ''e'' ''high'' ''pending'' (Some ''2026-11-05T21:00:00+00:00'') None) = 75"
    by code_simp
  have bonus: "\<forall>h. base_score ''high'' + time_bonus h \<noteq> 75"
    by (simp add: base_score_def time_bonus_def)
  from parsed score bonus show ?thesis by blast
qed

end
